theory Spec2Isabelle
  imports Main
begin

section \<open>The flashing script \<^verbatim>\<open>flash_all.py\<close>\<close>

subsection \<open>The process and its surroundings\<close>

text \<open>
  The script talks to four things outside itself: standard output (\<^verbatim>\<open>print\<close>), the
  file system (\<^verbatim>\<open>os.path.exists\<close>), the process environment (\<^verbatim>\<open>os.environ\<close>) and
  the external flashing tool (\<^verbatim>\<open>subprocess.run\<close>). Every such action is recorded, in
  the order it happens, as an event of the run. A \<open>Print\<close> event is a line that
  reached standard output.
\<close>

datatype event =
    Print string
  | Path_exists string
  | Environ_set string string
  | Subprocess_run "string list"

text \<open>
  What the child process of \<^verbatim>\<open>subprocess.run\<close> does: it runs and exits with a return
  code (negative when killed by a signal), having written the given bytes to its
  standard output and standard error, or it cannot be started at all (\<^verbatim>\<open>OSError\<close>, for
  instance when \<^verbatim>\<open>esptool.py\<close> is not on the path).
\<close>

datatype completed = Exited int string string | Not_started

text \<open>
  The surroundings of one run.
  \<^item> \<open>path_exists\<close> is \<^verbatim>\<open>os.path.exists\<close>.
  \<^item> \<open>subprocess\<close> is the behaviour of the child for a command.
  \<^item> \<open>decode\<close> is the decoding of captured bytes that \<^verbatim>\<open>text=True\<close> asks for, in the
    locale's encoding; \<open>None\<close> when the bytes are not valid in it
    (\<^verbatim>\<open>UnicodeDecodeError\<close>).
  \<^item> \<open>exc_str\<close> is the text the Python runtime gives for \<^verbatim>\<open>str(e)\<close> of a
    \<^verbatim>\<open>CalledProcessError\<close> with the given command and return code.
  \<^item> \<open>stdout_encodes\<close> tells whether the encoding of standard output can encode a
    text that is not plain ASCII.
  A text is kept as the bytes of its UTF-8 encoding.
\<close>

record world =
  path_exists :: "string \<Rightarrow> bool"
  subprocess :: "string list \<Rightarrow> completed"
  decode :: "string \<Rightarrow> string option"
  exc_str :: "string list \<Rightarrow> int \<Rightarrow> string"
  stdout_encodes :: "string \<Rightarrow> bool"

text \<open>The mutable state of the process: \<^verbatim>\<open>os.environ\<close> and the events so far.\<close>

record state =
  environ :: "string \<Rightarrow> string option"
  events :: "event list"

text \<open>
  The exceptions of a run. The script catches \<^verbatim>\<open>CalledProcessError\<close> only, which is
  therefore a branch of \<open>run_command\<close> and not a constructor here; \<^verbatim>\<open>sys.exit(n)\<close>
  raises \<open>SystemExit n\<close>.
\<close>

datatype exn = OSError | UnicodeDecodeError | UnicodeEncodeError | SystemExit int

text \<open>A step of the script: it changes the state and returns a value or raises.\<close>

type_synonym 'a action = "state \<Rightarrow> (exn + 'a) \<times> state"

definition return :: "'a \<Rightarrow> 'a action" where
  "return x st = (Inr x, st)"

definition raise :: "exn \<Rightarrow> 'a action" where
  "raise e st = (Inl e, st)"

definition and_then :: "'a action \<Rightarrow> ('a \<Rightarrow> 'b action) \<Rightarrow> 'b action" where
  "and_then m f st = (case m st of (Inl e, st1) \<Rightarrow> (Inl e, st1) | (Inr x, st1) \<Rightarrow> f x st1)"

definition followed_by :: "unit action \<Rightarrow> 'b action \<Rightarrow> 'b action" where
  "followed_by m n = and_then m (\<lambda>_. n)"

subsection \<open>Python primitives\<close>

definition emit :: "event \<Rightarrow> state \<Rightarrow> state" where
  "emit e st = st\<lparr>events := events st @ [e]\<rparr>"

text \<open>A text all of whose characters are ASCII: no byte has its top bit set.\<close>

definition is_ascii :: "string \<Rightarrow> bool" where
  "is_ascii s = list_all (\<lambda>c. \<not> digit7 c) s"

text \<open>
  \<^verbatim>\<open>print(s)\<close> encodes the text for standard output. Every encoding of standard output
  encodes ASCII; for any other text the encoding decides, and \<^verbatim>\<open>print\<close> raises
  \<^verbatim>\<open>UnicodeEncodeError\<close> when it cannot.
\<close>

definition printable :: "world \<Rightarrow> string \<Rightarrow> bool" where
  "printable w s = (is_ascii s \<or> stdout_encodes w s)"

definition print :: "world \<Rightarrow> string \<Rightarrow> unit action" where
  "print w s st =
    (if printable w s then (Inr (), emit (Print s) st) else (Inl UnicodeEncodeError, st))"

text \<open>\<^verbatim>\<open>os.environ.get(key, default)\<close>\<close>

definition environ_get :: "state \<Rightarrow> string \<Rightarrow> string \<Rightarrow> string" where
  "environ_get st key dflt = (case environ st key of None \<Rightarrow> dflt | Some v \<Rightarrow> v)"

text \<open>\<^verbatim>\<open>os.environ[key] = v\<close>\<close>

definition environ_set :: "string \<Rightarrow> string \<Rightarrow> state \<Rightarrow> state" where
  "environ_set key v st = emit (Environ_set key v) (st\<lparr>environ := (environ st)(key \<mapsto> v)\<rparr>)"

text \<open>\<^verbatim>\<open>sep.join(xs)\<close>\<close>

fun join :: "string \<Rightarrow> string list \<Rightarrow> string" where
  "join sep [] = []"
| "join sep [x] = x"
| "join sep (x # y # ys) = x @ sep @ join sep (y # ys)"

text \<open>
  The two non-ASCII characters of the script's messages, U+2713 and U+2717, as the
  bytes of their UTF-8 encoding; the line feed of \<^verbatim>\<open>"\n"\<close>; the apostrophe.
\<close>

definition check_mark :: string where
  "check_mark = [CHR 0xE2, CHR 0x9C, CHR 0x93]"

definition ballot_x :: string where
  "ballot_x = [CHR 0xE2, CHR 0x9C, CHR 0x97]"

definition newline :: string where
  "newline = [CHR 0x0A]"

definition apostrophe :: string where
  "apostrophe = [CHR 0x27]"

subsection \<open>\<^verbatim>\<open>run_command\<close>\<close>

text \<open>
  \<^verbatim>\<open>subprocess.run(cmd, check=True, capture_output=True, text=True)\<close> raises \<^verbatim>\<open>OSError\<close>
  when the child cannot be started, \<^verbatim>\<open>UnicodeDecodeError\<close> when the captured bytes do
  not decode, and \<^verbatim>\<open>CalledProcessError\<close> when the return code is not zero. Only the
  last is caught; the \<^verbatim>\<open>print\<close> inside the \<^verbatim>\<open>try\<close> and those of the handler raise
  through it.
\<close>

definition run_command :: "world \<Rightarrow> string list \<Rightarrow> string \<Rightarrow> bool action" where
  "run_command w cmd description =
    followed_by (print w (newline @ description @ ''...''))
   (followed_by (print w (''Command: '' @ join '' '' cmd))
   (followed_by (\<lambda>st. (Inr (), emit (Subprocess_run cmd) st))
     (case subprocess w cmd of
        Not_started \<Rightarrow> raise OSError
      | Exited returncode raw_out raw_err \<Rightarrow>
          (case decode w raw_out of
             None \<Rightarrow> raise UnicodeDecodeError
           | Some out \<Rightarrow>
          (case decode w raw_err of
             None \<Rightarrow> raise UnicodeDecodeError
           | Some err \<Rightarrow>
               if returncode = 0
               then followed_by
                      (print w (check_mark @ '' '' @ description @ '' completed successfully''))
                      (return True)
               else followed_by
                      (print w (ballot_x @ '' Error during '' @ description @ '': ''
                                 @ exc_str w cmd returncode))
                   (followed_by (print w (''stdout: '' @ out))
                   (followed_by (print w (''stderr: '' @ err))
                      (return False))))))))"

subsection \<open>\<^verbatim>\<open>flash_all\<close>\<close>

definition bootloader_bin :: string where
  "bootloader_bin = ''build/bootloader/bootloader.bin''"

definition partition_table_bin :: string where
  "partition_table_bin = ''build/partition_table/partition-table.bin''"

definition app_bin :: string where
  "app_bin = ''build/esp32-doom.bin''"

definition storage_bin :: string where
  "storage_bin = ''build/storage.bin''"

definition wad_bin :: string where
  "wad_bin = ''build/wad_partition.bin''"

definition required_files :: "(string \<times> string) list" where
  "required_files =
    [(bootloader_bin, ''Bootloader''),
     (partition_table_bin, ''Partition table''),
     (app_bin, ''Application''),
     (storage_bin, ''SPIFFS storage''),
     (wad_bin, ''WAD file'')]"

text \<open>
  The loop over \<open>required_files\<close>. The value is \<open>False\<close> when the loop body
  returned \<^verbatim>\<open>False\<close> from \<^verbatim>\<open>flash_all\<close>, \<open>True\<close> when the loop ran to its end.
\<close>

fun check_files :: "world \<Rightarrow> (string \<times> string) list \<Rightarrow> bool action" where
  "check_files w [] = return True"
| "check_files w ((file_path, description) # rest) =
    followed_by (\<lambda>st. (Inr (), emit (Path_exists file_path) st))
      (if \<not> path_exists w file_path
       then followed_by (print w (''Error: '' @ description @ '' file not found: '' @ file_path))
           (followed_by
              (print w (''Please run '' @ apostrophe @ ''idf.py build'' @ apostrophe @ '' first''))
              (return False))
       else check_files w rest)"

text \<open>The list literal \<^verbatim>\<open>cmd\<close> of \<^verbatim>\<open>flash_all\<close>.\<close>

definition cmd :: "string \<Rightarrow> string \<Rightarrow> string \<Rightarrow> string \<Rightarrow> string \<Rightarrow> string list" where
  "cmd espport espbaud espflashmode espflashfreq espflashsize =
    [''esptool.py'',
     ''--chip'', ''esp32'',
     ''--port'', espport,
     ''--baud'', espbaud,
     ''write_flash'',
     ''--flash_mode'', espflashmode,
     ''--flash_freq'', espflashfreq,
     ''--flash_size'', espflashsize,
     ''0x1000'', bootloader_bin,
     ''0x8000'', partition_table_bin,
     ''0x10000'', app_bin,
     ''0x188000'', wad_bin,
     ''0x388000'', storage_bin]"

definition flash_all :: "world \<Rightarrow> bool action" where
  "flash_all w st =
    (let espport = environ_get st ''ESPPORT'' [];
         espbaud = environ_get st ''ESPBAUD'' ''115200'';
         espflashmode = environ_get st ''ESPFLASHMODE'' ''dio'';
         espflashfreq = environ_get st ''ESPFLASHFREQ'' ''40m'';
         espflashsize = environ_get st ''ESPFLASHSIZE'' ''4MB''
     in if espport = []
        then followed_by (print w ''Error: ESPPORT environment variable not set!'')
            (followed_by (print w ''Please set ESPPORT to your device port (e.g., /dev/ttyUSB0)'')
            (followed_by (print w ''You can also set it via: export ESPPORT=/dev/ttyUSB0'')
               (return False))) st
        else and_then (check_files w required_files)
               (\<lambda>all_present.
                  if \<not> all_present then return False
                  else run_command w (cmd espport espbaud espflashmode espflashfreq espflashsize)
                         ''Flashing all partitions'') st)"

subsection \<open>\<^verbatim>\<open>main\<close>\<close>

text \<open>
  \<^verbatim>\<open>parser.parse_args()\<close> either leaves the process itself (status 2 on a usage error,
  status 0 after \<^verbatim>\<open>--help\<close>) or returns a namespace whose \<^verbatim>\<open>port\<close> is \<^verbatim>\<open>None\<close> when
  neither \<^verbatim>\<open>--port\<close> nor \<^verbatim>\<open>-p\<close> was given and the given string otherwise.
\<close>

datatype parsed = Parser_exit int | Namespace "string option"

text \<open>Python's truth value of \<^verbatim>\<open>args.port\<close>: \<^verbatim>\<open>None\<close> and the empty string are false.\<close>

fun truthy :: "string option \<Rightarrow> bool" where
  "truthy None = False"
| "truthy (Some s) = (s \<noteq> [])"

text \<open>The body of \<^verbatim>\<open>main\<close> after \<^verbatim>\<open>parse_args\<close> has returned.\<close>

definition main_body :: "world \<Rightarrow> string option \<Rightarrow> unit action" where
  "main_body w port st =
    (let st1 = (if truthy port then environ_set ''ESPPORT'' (the port) st else st)
     in followed_by (print w ''ESP32-Doom Flash Script'')
       (followed_by (print w ''======================='')
       (and_then (flash_all w)
          (\<lambda>success.
             if success
             then followed_by
                    (print w (newline @ check_mark @ '' All partitions flashed successfully!''))
                 (followed_by (print w ''The ESP32 should now boot with:'')
                 (followed_by (print w ''- Application firmware'')
                 (followed_by (print w ''- WAD file in the wad partition'')
                    (print w ''- index.html in the SPIFFS storage partition''))))
             else followed_by (print w (newline @ ballot_x @ '' Flashing failed!''))
                    (raise (SystemExit 1))))) st1)"

text \<open>
  The run of the script: the exit status of the process and its final state. The
  process ends with status 0 when \<^verbatim>\<open>main\<close> returns, with the status of \<^verbatim>\<open>SystemExit\<close>
  when that is raised, and with status 1 when any other exception reaches the top level.
\<close>

definition main :: "world \<Rightarrow> parsed \<Rightarrow> state \<Rightarrow> int \<times> state" where
  "main w args st =
    (case args of
       Parser_exit status \<Rightarrow> (status, st)
     | Namespace port \<Rightarrow>
        (case main_body w port st of
           (Inr _, st') \<Rightarrow> (0, st')
         | (Inl (SystemExit status), st') \<Rightarrow> (status, st')
         | (Inl _, st') \<Rightarrow> (1, st')))"

subsection \<open>Observations on a run\<close>

text \<open>The commands handed to \<^verbatim>\<open>subprocess.run\<close>, in order.\<close>

definition invocations :: "event list \<Rightarrow> string list list" where
  "invocations es = concat (map (\<lambda>e. case e of Subprocess_run c \<Rightarrow> [c] | _ \<Rightarrow> []) es)"

text \<open>The paths tested with \<^verbatim>\<open>os.path.exists\<close>, in order.\<close>

definition checked_paths :: "event list \<Rightarrow> string list" where
  "checked_paths es = concat (map (\<lambda>e. case e of Path_exists p \<Rightarrow> [p] | _ \<Rightarrow> []) es)"

text \<open>The assignments to \<^verbatim>\<open>os.environ\<close>, in order.\<close>

definition environ_writes :: "event list \<Rightarrow> (string \<times> string) list" where
  "environ_writes es = concat (map (\<lambda>e. case e of Environ_set k v \<Rightarrow> [(k, v)] | _ \<Rightarrow> []) es)"

text \<open>
  The port \<^verbatim>\<open>flash_all\<close> reads when \<^verbatim>\<open>main\<close> calls it: \<^verbatim>\<open>ESPPORT\<close> of the environment
  after the override of \<^verbatim>\<open>main\<close>.
\<close>

definition resolved_port :: "string option \<Rightarrow> state \<Rightarrow> string" where
  "resolved_port port st =
    environ_get (if truthy port then environ_set ''ESPPORT'' (the port) st else st)
      ''ESPPORT'' []"

text \<open>What \<^verbatim>\<open>main\<close> does before it calls \<^verbatim>\<open>flash_all\<close>.\<close>

definition preamble :: "string option \<Rightarrow> event list" where
  "preamble port =
    (if truthy port then [Environ_set ''ESPPORT'' (the port)] else [])
    @ [Print ''ESP32-Doom Flash Script'', Print ''======================='']"

text \<open>The state in which \<^verbatim>\<open>main\<close> calls \<^verbatim>\<open>flash_all\<close>.\<close>

definition entry_state :: "string option \<Rightarrow> state \<Rightarrow> state" where
  "entry_state port st =
    emit (Print ''======================='')
      (emit (Print ''ESP32-Doom Flash Script'')
        (if truthy port then environ_set ''ESPPORT'' (the port) st else st))"

text \<open>
  The first line \<^verbatim>\<open>main\<close> prints after a successful and after a failed \<^verbatim>\<open>flash_all\<close>,
  and what reaches standard output of each report.
\<close>

definition success_line :: string where
  "success_line = newline @ check_mark @ '' All partitions flashed successfully!''"

definition failure_line :: string where
  "failure_line = newline @ ballot_x @ '' Flashing failed!''"

definition success_report :: "world \<Rightarrow> event list" where
  "success_report w =
    (if printable w success_line
     then [Print success_line,
           Print ''The ESP32 should now boot with:'',
           Print ''- Application firmware'',
           Print ''- WAD file in the wad partition'',
           Print ''- index.html in the SPIFFS storage partition'']
     else [])"

definition failure_report :: "world \<Rightarrow> event list" where
  "failure_report w = (if printable w failure_line then [Print failure_line] else [])"

text \<open>The line of \<^verbatim>\<open>run_command\<close> that shows the command.\<close>

definition command_line :: "string list \<Rightarrow> string" where
  "command_line c = ''Command: '' @ join '' '' c"

subsection \<open>Sample surroundings\<close>

text \<open>\<^verbatim>\<open>repr\<close> of a list of strings that need no escaping.\<close>

definition repr_list :: "string list \<Rightarrow> string" where
  "repr_list xs = ''['' @ join '', '' (map (\<lambda>x. apostrophe @ x @ apostrophe) xs) @ '']''"

text \<open>
  A machine with an ASCII locale and a terminal that encodes everything, on which every
  file exists and the tool succeeds.
\<close>

definition good_world :: world where
  "good_world = \<lparr>path_exists = (\<lambda>p. True),
                  subprocess = (\<lambda>c. Exited 0 ''Hash of data verified.'' []),
                  decode = (\<lambda>b. if is_ascii b then Some b else None),
                  exc_str = (\<lambda>c r. ''Command '' @ apostrophe @ repr_list c @ apostrophe
                                     @ '' returned non-zero exit status 2.''),
                  stdout_encodes = (\<lambda>s. True)\<rparr>"

text \<open>The same machine with the device unplugged: the tool exits with status 2.\<close>

definition unplugged_world :: world where
  "unplugged_world =
    good_world\<lparr>subprocess := (\<lambda>c. Exited 2 ''Connecting...'' ''No serial data received.'')\<rparr>"

text \<open>A build tree in which \<^verbatim>\<open>build/storage.bin\<close> is missing.\<close>

definition unbuilt_world :: world where
  "unbuilt_world = good_world\<lparr>path_exists := (\<lambda>p. p \<noteq> ''build/storage.bin'')\<rparr>"



text \<open>An environment with \<^verbatim>\<open>ESPPORT=/dev/ttyUSB0\<close> and nothing else, and an empty one.\<close>

definition usb0_state :: state where
  "usb0_state = \<lparr>environ = [''ESPPORT'' \<mapsto> ''/dev/ttyUSB0''], events = []\<rparr>"

definition bare_state :: state where
  "bare_state = \<lparr>environ = Map.empty, events = []\<rparr>"

section \<open>Properties of the script\<close>


subsection \<open>Steps and their effects\<close>

lemma is_ascii_Nil [simp]: "is_ascii []"
  by (simp add: is_ascii_def)

lemma is_ascii_Cons [simp]: "is_ascii (c # cs) \<longleftrightarrow> \<not> digit7 c \<and> is_ascii cs"
  by (simp add: is_ascii_def)

lemma is_ascii_append [simp]: "is_ascii (xs @ ys) \<longleftrightarrow> is_ascii xs \<and> is_ascii ys"
  by (simp add: is_ascii_def)

lemma printable_ascii: "is_ascii s \<Longrightarrow> printable w s"
  by (simp add: printable_def)

lemma return_apply [simp]: "return x st = (Inr x, st)"
  by (simp add: return_def)

lemma raise_apply [simp]: "raise e st = (Inl e, st)"
  by (simp add: raise_def)

lemma followed_by_print:
  "followed_by (print w s) n st =
    (if printable w s then n (emit (Print s) st) else (Inl UnicodeEncodeError, st))"
  by (simp add: followed_by_def and_then_def print_def)

lemma followed_by_step [simp]:
  "followed_by (\<lambda>st. (Inr (), g st)) n st = n (g st)"
  by (simp add: followed_by_def and_then_def)

lemma and_then_Inr: "m st = (Inr x, st1) \<Longrightarrow> and_then m f st = f x st1"
  by (simp add: and_then_def)

lemma and_then_Inl: "m st = (Inl e, st1) \<Longrightarrow> and_then m f st = (Inl e, st1)"
  by (simp add: and_then_def)

lemma events_emit [simp]: "events (emit e st) = events st @ [e]"
  by (simp add: emit_def)

lemma environ_emit [simp]: "environ (emit e st) = environ st"
  by (simp add: emit_def)

lemma environ_get_emit [simp]: "environ_get (emit e st) k d = environ_get st k d"
  by (simp add: environ_get_def)

lemma events_environ_set [simp]: "events (environ_set k v st) = events st @ [Environ_set k v]"
  by (simp add: environ_set_def)

lemma environ_environ_set [simp]: "environ (environ_set k v st) = (environ st)(k \<mapsto> v)"
  by (simp add: environ_set_def)

lemma resolved_port_eq:
  "resolved_port port st = (if truthy port then the port else environ_get st ''ESPPORT'' [])"
  by (simp add: resolved_port_def environ_get_def)

lemma resolved_port_empty: "resolved_port port st = [] \<Longrightarrow> \<not> truthy port"
  by (cases port) (auto simp: resolved_port_eq split: if_splits)

subsection \<open>Observations\<close>

lemma invocations_append [simp]: "invocations (xs @ ys) = invocations xs @ invocations ys"
  by (simp add: invocations_def)

lemma invocations_Nil [simp]: "invocations [] = []"
  by (simp add: invocations_def)

lemma invocations_Cons [simp]:
  "invocations (e # es) = (case e of Subprocess_run c \<Rightarrow> [c] | _ \<Rightarrow> []) @ invocations es"
  by (simp add: invocations_def)

lemma checked_paths_append [simp]: "checked_paths (xs @ ys) = checked_paths xs @ checked_paths ys"
  by (simp add: checked_paths_def)

lemma checked_paths_Nil [simp]: "checked_paths [] = []"
  by (simp add: checked_paths_def)

lemma checked_paths_Cons [simp]:
  "checked_paths (e # es) = (case e of Path_exists p \<Rightarrow> [p] | _ \<Rightarrow> []) @ checked_paths es"
  by (simp add: checked_paths_def)

lemma environ_writes_append [simp]:
  "environ_writes (xs @ ys) = environ_writes xs @ environ_writes ys"
  by (simp add: environ_writes_def)

lemma environ_writes_Nil [simp]: "environ_writes [] = []"
  by (simp add: environ_writes_def)

lemma environ_writes_Cons [simp]:
  "environ_writes (e # es) = (case e of Environ_set k v \<Rightarrow> [(k, v)] | _ \<Rightarrow> []) @ environ_writes es"
  by (simp add: environ_writes_def)

lemma invocations_paths [simp]: "invocations (map (\<lambda>f. Path_exists (fst f)) xs) = []"
  by (induction xs) simp_all

lemma checked_paths_map_paths [simp]:
  "checked_paths (map (\<lambda>f. Path_exists (fst f)) xs) = map fst xs"
  by (induction xs) simp_all

lemma environ_writes_paths [simp]: "environ_writes (map (\<lambda>f. Path_exists (fst f)) xs) = []"
  by (induction xs) simp_all

lemma reports_quiet [simp]:
  "invocations (success_report w) = []" "invocations (failure_report w) = []"
  "invocations (preamble port) = []"
  "checked_paths (success_report w) = []" "checked_paths (failure_report w) = []"
  "checked_paths (preamble port) = []"
  "environ_writes (success_report w) = []" "environ_writes (failure_report w) = []"
  by (simp_all add: success_report_def failure_report_def preamble_def)

subsection \<open>The loop over the required files\<close>

lemma check_files_all:
  "\<forall>f\<in>set fs. path_exists w (fst f) \<Longrightarrow>
   check_files w fs st = (Inr True, st\<lparr>events := events st @ map (\<lambda>f. Path_exists (fst f)) fs\<rparr>)"
  by (induction fs arbitrary: st) (auto simp: emit_def)

lemma check_files_first_missing:
  "\<forall>f\<in>set pre. path_exists w (fst f) \<Longrightarrow> \<not> path_exists w p \<Longrightarrow>
   is_ascii p \<Longrightarrow> is_ascii d \<Longrightarrow>
   check_files w (pre @ (p, d) # post) st =
     (Inr False, st\<lparr>events := events st @ map (\<lambda>f. Path_exists (fst f)) pre
        @ [Path_exists p,
           Print (''Error: '' @ d @ '' file not found: '' @ p),
           Print (''Please run '' @ apostrophe @ ''idf.py build'' @ apostrophe @ '' first'')]\<rparr>)"
  by (induction pre arbitrary: st)
     (auto simp: emit_def followed_by_print printable_def apostrophe_def)

lemma first_missing_split:
  "\<exists>f\<in>set fs. \<not> path_exists w (fst f) \<Longrightarrow>
   \<exists>pre p d post. fs = pre @ (p, d) # post \<and> (\<forall>f\<in>set pre. path_exists w (fst f)) \<and> \<not> path_exists w p"
proof -
  assume "\<exists>f\<in>set fs. \<not> path_exists w (fst f)"
  then obtain pre x post where "fs = pre @ x # post" "\<not> path_exists w (fst x)"
    "\<forall>f\<in>set pre. \<not> \<not> path_exists w (fst f)"
    using split_list_first_prop[of fs "\<lambda>f. \<not> path_exists w (fst f)"] by blast
  then show ?thesis by (cases x) auto
qed

lemma required_files_ascii:
  "(p, d) \<in> set required_files \<Longrightarrow> is_ascii p \<and> is_ascii d"
  by (auto simp: required_files_def bootloader_bin_def partition_table_bin_def app_bin_def
        storage_bin_def wad_bin_def)

lemma all_required_files:
  "(\<forall>f\<in>set required_files. path_exists w (fst f)) \<longleftrightarrow>
   path_exists w ''build/bootloader/bootloader.bin'' \<and>
   path_exists w ''build/partition_table/partition-table.bin'' \<and>
   path_exists w ''build/esp32-doom.bin'' \<and>
   path_exists w ''build/storage.bin'' \<and>
   path_exists w ''build/wad_partition.bin''"
  by (simp add: required_files_def bootloader_bin_def partition_table_bin_def app_bin_def
        storage_bin_def wad_bin_def)


subsection \<open>The three ways through \<^verbatim>\<open>flash_all\<close>\<close>

lemma flash_all_no_port:
  "environ_get st ''ESPPORT'' [] = [] \<Longrightarrow>
   flash_all w st = (Inr False, st\<lparr>events := events st @
     [Print ''Error: ESPPORT environment variable not set!'',
      Print ''Please set ESPPORT to your device port (e.g., /dev/ttyUSB0)'',
      Print ''You can also set it via: export ESPPORT=/dev/ttyUSB0'']\<rparr>)"
  by (simp add: flash_all_def followed_by_print printable_def emit_def)

lemma flash_all_missing:
  assumes port: "environ_get st ''ESPPORT'' [] \<noteq> []"
    and split: "required_files = pre @ (p, d) # post"
    and pre: "\<forall>f\<in>set pre. path_exists w (fst f)"
    and miss: "\<not> path_exists w p"
  shows "flash_all w st = (Inr False, st\<lparr>events := events st @ map (\<lambda>f. Path_exists (fst f)) pre
        @ [Path_exists p,
           Print (''Error: '' @ d @ '' file not found: '' @ p),
           Print (''Please run '' @ apostrophe @ ''idf.py build'' @ apostrophe @ '' first'')]\<rparr>)"
proof -
  have "(p, d) \<in> set required_files"
    unfolding split by simp
  then have ascii: "is_ascii p" "is_ascii d"
    using required_files_ascii by blast+
  have "check_files w required_files st =
     (Inr False, st\<lparr>events := events st @ map (\<lambda>f. Path_exists (fst f)) pre
        @ [Path_exists p,
           Print (''Error: '' @ d @ '' file not found: '' @ p),
           Print (''Please run '' @ apostrophe @ ''idf.py build'' @ apostrophe @ '' first'')]\<rparr>)"
    unfolding split using pre miss ascii by (rule check_files_first_missing)
  with port show ?thesis
    by (simp add: flash_all_def and_then_def)
qed

lemma flash_all_present:
  "environ_get st ''ESPPORT'' [] \<noteq> [] \<Longrightarrow> \<forall>f\<in>set required_files. path_exists w (fst f) \<Longrightarrow>
   flash_all w st =
     run_command w (cmd (environ_get st ''ESPPORT'' []) (environ_get st ''ESPBAUD'' ''115200'')
                      (environ_get st ''ESPFLASHMODE'' ''dio'') (environ_get st ''ESPFLASHFREQ'' ''40m'')
                      (environ_get st ''ESPFLASHSIZE'' ''4MB''))
       ''Flashing all partitions''
       (st\<lparr>events := events st @ map (\<lambda>f. Path_exists (fst f)) required_files\<rparr>)"
  by (simp add: flash_all_def check_files_all and_then_def)

subsection \<open>The ways through \<^verbatim>\<open>run_command\<close>\<close>

lemma run_command_start:
  "is_ascii d \<Longrightarrow>
   run_command w c d st =
    (if printable w (command_line c)
     then (case subprocess w c of
        Not_started \<Rightarrow> raise OSError
      | Exited returncode raw_out raw_err \<Rightarrow>
          (case decode w raw_out of
             None \<Rightarrow> raise UnicodeDecodeError
           | Some out \<Rightarrow>
          (case decode w raw_err of
             None \<Rightarrow> raise UnicodeDecodeError
           | Some err \<Rightarrow>
               if returncode = 0
               then followed_by
                      (print w (check_mark @ '' '' @ d @ '' completed successfully''))
                      (return True)
               else followed_by
                      (print w (ballot_x @ '' Error during '' @ d @ '': ''
                                 @ exc_str w c returncode))
                   (followed_by (print w (''stdout: '' @ out))
                   (followed_by (print w (''stderr: '' @ err))
                      (return False))))))
       (st\<lparr>events := events st @
          [Print (newline @ d @ ''...''), Print (command_line c), Subprocess_run c]\<rparr>)
     else (Inl UnicodeEncodeError, st\<lparr>events := events st @ [Print (newline @ d @ ''...'')]\<rparr>))"
  by (simp add: run_command_def followed_by_print printable_def command_line_def newline_def
        emit_def)



lemma run_command_ok:
  assumes "is_ascii d" and "printable w (command_line c)"
    and "subprocess w c = Exited 0 raw_out raw_err"
    and "decode w raw_out = Some out" and "decode w raw_err = Some err"
    and "printable w (check_mark @ '' '' @ d @ '' completed successfully'')"
  shows "run_command w c d st = (Inr True, st\<lparr>events := events st @
     [Print (newline @ d @ ''...''),
      Print (command_line c),
      Subprocess_run c,
      Print (check_mark @ '' '' @ d @ '' completed successfully'')]\<rparr>)"
  using assms by (simp add: run_command_start followed_by_print emit_def)

lemma run_command_invocations:
  "is_ascii d \<Longrightarrow>
   invocations (events (snd (run_command w c d st))) =
     invocations (events st) @ (if printable w (command_line c) then [c] else [])"
  by (simp add: run_command_start followed_by_print split: completed.splits option.splits)

lemma run_command_frame:
  "is_ascii d \<Longrightarrow>
   environ (snd (run_command w c d st)) = environ st \<and>
   environ_writes (events (snd (run_command w c d st))) = environ_writes (events st) \<and>
   checked_paths (events (snd (run_command w c d st))) = checked_paths (events st)"
  by (simp add: run_command_start followed_by_print split: completed.splits option.splits)

lemma run_command_extends:
  "is_ascii d \<Longrightarrow>
   \<exists>es. events (snd (run_command w c d st)) = events st @ es \<and> environ_writes es = []"
  by (simp add: run_command_start followed_by_print split: completed.splits option.splits)

lemma run_command_no_exit:
  "is_ascii d \<Longrightarrow> fst (run_command w c d st) \<noteq> Inl (SystemExit n)"
  by (simp add: run_command_start followed_by_print split: completed.splits option.splits)

lemma run_command_not_True:
  "is_ascii d \<Longrightarrow> subprocess w c = Exited returncode raw_out raw_err \<Longrightarrow> returncode \<noteq> 0 \<Longrightarrow>
   fst (run_command w c d st) \<noteq> Inr True"
  by (simp add: run_command_start followed_by_print split: option.splits)

lemma run_command_cong:
  assumes "is_ascii d" and "subprocess w c = subprocess w' c" and "decode w = decode w'"
    and "exc_str w c = exc_str w' c" and "stdout_encodes w = stdout_encodes w'"
    and "events st = events st'"
  shows "fst (run_command w c d st) = fst (run_command w' c d st') \<and>
    events (snd (run_command w c d st)) = events (snd (run_command w' c d st'))"
proof -
  have "printable w = printable w'"
    using assms(5) by (simp add: printable_def fun_eq_iff)
  with assms show ?thesis
    by (simp add: run_command_start followed_by_print split: completed.splits option.splits)
qed

lemma description_ascii [simp]: "is_ascii ''Flashing all partitions''"
  by simp

subsection \<open>\<^verbatim>\<open>flash_all\<close> as a whole\<close>

lemma flash_all_invocations:
  "invocations (events (snd (flash_all w st))) =
    invocations (events st) @
    (if environ_get st ''ESPPORT'' [] \<noteq> [] \<and> (\<forall>f\<in>set required_files. path_exists w (fst f))
        \<and> printable w (command_line
             (cmd (environ_get st ''ESPPORT'' []) (environ_get st ''ESPBAUD'' ''115200'')
               (environ_get st ''ESPFLASHMODE'' ''dio'') (environ_get st ''ESPFLASHFREQ'' ''40m'')
               (environ_get st ''ESPFLASHSIZE'' ''4MB'')))
     then [cmd (environ_get st ''ESPPORT'' []) (environ_get st ''ESPBAUD'' ''115200'')
             (environ_get st ''ESPFLASHMODE'' ''dio'') (environ_get st ''ESPFLASHFREQ'' ''40m'')
             (environ_get st ''ESPFLASHSIZE'' ''4MB'')]
     else [])"
proof (cases "environ_get st ''ESPPORT'' [] = []")
  case True
  then show ?thesis
    by (simp add: flash_all_no_port)
next
  case port: False
  show ?thesis
  proof (cases "\<forall>f\<in>set required_files. path_exists w (fst f)")
    case True
    with port show ?thesis
      by (simp add: flash_all_present run_command_invocations)
  next
    case False
    then obtain pre p d post where "required_files = pre @ (p, d) # post"
      "\<forall>f\<in>set pre. path_exists w (fst f)" "\<not> path_exists w p"
      using first_missing_split [of required_files w] by blast
    from flash_all_missing [OF port this] port False show ?thesis
      by simp
  qed
qed

lemma flash_all_frame:
  "environ (snd (flash_all w st)) = environ st \<and>
   environ_writes (events (snd (flash_all w st))) = environ_writes (events st)"
proof (cases "environ_get st ''ESPPORT'' [] = []")
  case True
  then show ?thesis
    by (simp add: flash_all_no_port)
next
  case port: False
  show ?thesis
  proof (cases "\<forall>f\<in>set required_files. path_exists w (fst f)")
    case True
    with port show ?thesis
      by (simp add: flash_all_present run_command_frame)
  next
    case False
    then obtain pre p d post where "required_files = pre @ (p, d) # post"
      "\<forall>f\<in>set pre. path_exists w (fst f)" "\<not> path_exists w p"
      using first_missing_split [of required_files w] by blast
    from flash_all_missing [OF port this] show ?thesis
      by simp
  qed
qed

lemma flash_all_no_exit: "fst (flash_all w st) \<noteq> Inl (SystemExit n)"
proof (cases "environ_get st ''ESPPORT'' [] = []")
  case True
  then show ?thesis
    by (simp add: flash_all_no_port)
next
  case port: False
  show ?thesis
  proof (cases "\<forall>f\<in>set required_files. path_exists w (fst f)")
    case True
    with port show ?thesis
      by (simp add: flash_all_present run_command_no_exit)
  next
    case False
    then obtain pre p d post where "required_files = pre @ (p, d) # post"
      "\<forall>f\<in>set pre. path_exists w (fst f)" "\<not> path_exists w p"
      using first_missing_split [of required_files w] by blast
    from flash_all_missing [OF port this] show ?thesis
      by simp
  qed
qed

lemma flash_all_extends:
  "\<exists>es. events (snd (flash_all w st)) = events st @ es \<and> environ_writes es = []"
proof (cases "environ_get st ''ESPPORT'' [] = []")
  case True
  then show ?thesis
    by (simp add: flash_all_no_port)
next
  case port: False
  show ?thesis
  proof (cases "\<forall>f\<in>set required_files. path_exists w (fst f)")
    case True
    let ?st1 = "st\<lparr>events := events st @ map (\<lambda>f. Path_exists (fst f)) required_files\<rparr>"
    let ?c = "cmd (environ_get st ''ESPPORT'' []) (environ_get st ''ESPBAUD'' ''115200'')
                (environ_get st ''ESPFLASHMODE'' ''dio'') (environ_get st ''ESPFLASHFREQ'' ''40m'')
                (environ_get st ''ESPFLASHSIZE'' ''4MB'')"
    obtain es where "events (snd (run_command w ?c ''Flashing all partitions'' ?st1))
        = events ?st1 @ es" "environ_writes es = []"
      using run_command_extends [OF description_ascii] by blast
    then have "events (snd (flash_all w st)) =
        events st @ (map (\<lambda>f. Path_exists (fst f)) required_files @ es) \<and>
        environ_writes (map (\<lambda>f. Path_exists (fst f)) required_files @ es) = []"
      using port True by (simp add: flash_all_present)
    then show ?thesis by blast
  next
    case False
    then obtain pre p d post where "required_files = pre @ (p, d) # post"
      "\<forall>f\<in>set pre. path_exists w (fst f)" "\<not> path_exists w p"
      using first_missing_split [of required_files w] by blast
    from flash_all_missing [OF port this] show ?thesis
      by simp
  qed
qed

subsection \<open>\<^verbatim>\<open>main\<close> around \<^verbatim>\<open>flash_all\<close>\<close>

lemma events_entry_state [simp]: "events (entry_state port st) = events st @ preamble port"
  by (simp add: entry_state_def preamble_def)

lemma environ_entry_state:
  "environ (entry_state port st) =
    (if truthy port then (environ st)(''ESPPORT'' \<mapsto> the port) else environ st)"
  by (simp add: entry_state_def)

lemma environ_get_entry_port [simp]:
  "environ_get (entry_state port st) ''ESPPORT'' [] = resolved_port port st"
  by (simp add: entry_state_def resolved_port_def)

lemma environ_get_entry_other:
  "k \<noteq> ''ESPPORT'' \<Longrightarrow> environ_get (entry_state port st) k d = environ_get st k d"
  by (simp add: environ_get_def environ_entry_state)

lemma main_of_flash:
  assumes "flash_all w (entry_state port st) = (r, st4)"
  shows "main w (Namespace port) st =
    (case r of
       Inl (SystemExit status) \<Rightarrow> (status, st4)
     | Inl _ \<Rightarrow> (1, st4)
     | Inr success \<Rightarrow>
         if success
         then (if printable w success_line then 0 else 1,
               st4\<lparr>events := events st4 @ success_report w\<rparr>)
         else (1, st4\<lparr>events := events st4 @ failure_report w\<rparr>))"
proof -
  have body: "main_body w port st =
      and_then (flash_all w)
          (\<lambda>success.
             if success
             then followed_by
                    (print w (newline @ check_mark @ '' All partitions flashed successfully!''))
                 (followed_by (print w ''The ESP32 should now boot with:'')
                 (followed_by (print w ''- Application firmware'')
                 (followed_by (print w ''- WAD file in the wad partition'')
                    (print w ''- index.html in the SPIFFS storage partition''))))
             else followed_by (print w (newline @ ballot_x @ '' Flashing failed!''))
                    (raise (SystemExit 1))) (entry_state port st)"
    by (simp add: main_body_def Let_def followed_by_print printable_def entry_state_def)
  show ?thesis
  proof (cases r)
    case (Inl e)
    with assms show ?thesis
      by (cases e) (simp_all add: main_def body and_then_def)
  next
    case (Inr success)
    with assms show ?thesis
      by (simp add: main_def body and_then_def followed_by_print print_def printable_def
            success_report_def failure_report_def success_line_def failure_line_def emit_def)
  qed
qed

lemma main_status:
  "fst (main w (Namespace port) st) =
    (case fst (flash_all w (entry_state port st)) of
       Inr True \<Rightarrow> if printable w success_line then 0 else 1
     | _ \<Rightarrow> 1)"
proof -
  obtain r st4 where f: "flash_all w (entry_state port st) = (r, st4)"
    by (cases "flash_all w (entry_state port st)")
  have "r \<noteq> Inl (SystemExit n)" for n
    using flash_all_no_exit [of w "entry_state port st" n] f by simp
  then show ?thesis
    unfolding main_of_flash [OF f] f
    by (cases r) (auto split: exn.splits)
qed

lemma main_events:
  "events (snd (main w (Namespace port) st)) =
    events (snd (flash_all w (entry_state port st))) @
    (case fst (flash_all w (entry_state port st)) of
       Inl e \<Rightarrow> [] | Inr True \<Rightarrow> success_report w | Inr False \<Rightarrow> failure_report w)"
proof -
  obtain r st4 where f: "flash_all w (entry_state port st) = (r, st4)"
    by (cases "flash_all w (entry_state port st)")
  show ?thesis
    unfolding main_of_flash [OF f] f
    by (cases r) (auto split: exn.splits)
qed

lemma main_environ:
  "environ (snd (main w (Namespace port) st)) = environ (snd (flash_all w (entry_state port st)))"
proof -
  obtain r st4 where f: "flash_all w (entry_state port st) = (r, st4)"
    by (cases "flash_all w (entry_state port st)")
  show ?thesis
    unfolding main_of_flash [OF f] f
    by (cases r) (auto split: exn.splits)
qed

lemma flash_all_entry_present:
  assumes "resolved_port port st \<noteq> []" and "\<forall>f\<in>set required_files. path_exists w (fst f)"
  shows "flash_all w (entry_state port st) =
     run_command w (cmd (resolved_port port st) (environ_get st ''ESPBAUD'' ''115200'')
                      (environ_get st ''ESPFLASHMODE'' ''dio'') (environ_get st ''ESPFLASHFREQ'' ''40m'')
                      (environ_get st ''ESPFLASHSIZE'' ''4MB''))
       ''Flashing all partitions''
       (entry_state port st\<lparr>events := events st @ preamble port
           @ map (\<lambda>f. Path_exists (fst f)) required_files\<rparr>)"
  using assms flash_all_present [of "entry_state port st" w]
  by (simp add: environ_get_entry_other)

lemma main_invocations:
  "invocations (events (snd (main w args st))) =
    invocations (events st) @
    (case args of
       Parser_exit status \<Rightarrow> []
     | Namespace port \<Rightarrow>
         if resolved_port port st \<noteq> [] \<and> (\<forall>f\<in>set required_files. path_exists w (fst f))
            \<and> printable w (command_line
                 (cmd (resolved_port port st) (environ_get st ''ESPBAUD'' ''115200'')
                   (environ_get st ''ESPFLASHMODE'' ''dio'') (environ_get st ''ESPFLASHFREQ'' ''40m'')
                   (environ_get st ''ESPFLASHSIZE'' ''4MB'')))
         then [cmd (resolved_port port st) (environ_get st ''ESPBAUD'' ''115200'')
                 (environ_get st ''ESPFLASHMODE'' ''dio'') (environ_get st ''ESPFLASHFREQ'' ''40m'')
                 (environ_get st ''ESPFLASHSIZE'' ''4MB'')]
         else [])"
proof (cases args)
  case (Parser_exit status)
  then show ?thesis by (simp add: main_def)
next
  case (Namespace port)
  have "invocations (events (snd (main w (Namespace port) st))) =
      invocations (events (snd (flash_all w (entry_state port st))))"
    by (simp add: main_events split: sum.splits bool.splits)
  then show ?thesis
    unfolding Namespace flash_all_invocations
    by (simp add: environ_get_entry_other)
qed

lemma main_environ_eq:
  "environ (snd (main w args st)) =
    (case args of
       Namespace (Some v) \<Rightarrow> if v \<noteq> [] then (environ st)(''ESPPORT'' \<mapsto> v) else environ st
     | _ \<Rightarrow> environ st)"
proof (cases args)
  case (Parser_exit status)
  then show ?thesis by (simp add: main_def)
next
  case (Namespace port)
  show ?thesis
    unfolding Namespace main_environ
    by (simp add: flash_all_frame environ_entry_state split: option.splits)
qed

lemma main_environ_writes:
  "environ_writes (events (snd (main w args st))) =
    environ_writes (events st) @
    (case args of
       Namespace (Some v) \<Rightarrow> if v \<noteq> [] then [(''ESPPORT'', v)] else []
     | _ \<Rightarrow> [])"
proof (cases args)
  case (Parser_exit status)
  then show ?thesis by (simp add: main_def)
next
  case (Namespace port)
  have "environ_writes (events (snd (main w (Namespace port) st))) =
      environ_writes (events (entry_state port st))"
    by (simp add: main_events flash_all_frame split: sum.splits bool.splits)
  then show ?thesis
    unfolding Namespace by (simp add: preamble_def split: option.splits)
qed


section \<open>The claims\<close>

lemma cmd_literal:
  "cmd espport espbaud espflashmode espflashfreq espflashsize =
    [''esptool.py'', ''--chip'', ''esp32'',
     ''--port'', espport,
     ''--baud'', espbaud,
     ''write_flash'',
     ''--flash_mode'', espflashmode,
     ''--flash_freq'', espflashfreq,
     ''--flash_size'', espflashsize,
     ''0x1000'', ''build/bootloader/bootloader.bin'',
     ''0x8000'', ''build/partition_table/partition-table.bin'',
     ''0x10000'', ''build/esp32-doom.bin'',
     ''0x188000'', ''build/wad_partition.bin'',
     ''0x388000'', ''build/storage.bin'']"
  by (simp add: cmd_def bootloader_bin_def partition_table_bin_def app_bin_def
        storage_bin_def wad_bin_def)

text \<open>
  C1. When the five artifact files exist and the port \<^verbatim>\<open>flash_all\<close> reads is not empty,
  \<^verbatim>\<open>flash_all\<close> builds one command and hands it to \<^verbatim>\<open>run_command\<close>: after \<^verbatim>\<open>write_flash\<close>
  and the three flash parameters it consists of the pairs 0x1000/bootloader,
  0x8000/partition table, 0x10000/application, 0x188000/WAD, 0x388000/storage, in that
  order, and of nothing else. It is the one command the run gives to the external tool,
  which happens as soon as the line showing the command has been printed.
\<close>

theorem flash_command_layout:
  assumes "path_exists w ''build/bootloader/bootloader.bin''"
    and "path_exists w ''build/partition_table/partition-table.bin''"
    and "path_exists w ''build/esp32-doom.bin''"
    and "path_exists w ''build/wad_partition.bin''"
    and "path_exists w ''build/storage.bin''"
    and "resolved_port port st \<noteq> []"
  shows
   "(let c = [''esptool.py'', ''--chip'', ''esp32'',
              ''--port'', resolved_port port st,
              ''--baud'', environ_get st ''ESPBAUD'' ''115200'',
              ''write_flash'',
              ''--flash_mode'', environ_get st ''ESPFLASHMODE'' ''dio'',
              ''--flash_freq'', environ_get st ''ESPFLASHFREQ'' ''40m'',
              ''--flash_size'', environ_get st ''ESPFLASHSIZE'' ''4MB'']
             @ [''0x1000'', ''build/bootloader/bootloader.bin'',
                ''0x8000'', ''build/partition_table/partition-table.bin'',
                ''0x10000'', ''build/esp32-doom.bin'',
                ''0x188000'', ''build/wad_partition.bin'',
                ''0x388000'', ''build/storage.bin'']
     in flash_all w (entry_state port st) =
          run_command w c ''Flashing all partitions''
            (entry_state port st\<lparr>events := events st @ preamble port
               @ map (\<lambda>f. Path_exists (fst f)) required_files\<rparr>) \<and>
        invocations (events (snd (main w (Namespace port) st))) =
          invocations (events st) @ (if printable w (command_line c) then [c] else []))"
proof -
  have files: "\<forall>f\<in>set required_files. path_exists w (fst f)"
    using assms by (simp add: all_required_files)
  show ?thesis
    using assms(6) files
    by (simp add: Let_def main_invocations flash_all_entry_present cmd_literal)
qed

theorem flash_command_layout_witness:
  "path_exists good_world ''build/bootloader/bootloader.bin'' \<and>
   path_exists good_world ''build/partition_table/partition-table.bin'' \<and>
   path_exists good_world ''build/esp32-doom.bin'' \<and>
   path_exists good_world ''build/wad_partition.bin'' \<and>
   path_exists good_world ''build/storage.bin'' \<and>
   resolved_port None usb0_state \<noteq> [] \<and>
   invocations (events (snd (main good_world (Namespace None) usb0_state))) =
    [ [''esptool.py'', ''--chip'', ''esp32'', ''--port'', ''/dev/ttyUSB0'', ''--baud'', ''115200'',
      ''write_flash'', ''--flash_mode'', ''dio'', ''--flash_freq'', ''40m'', ''--flash_size'', ''4MB'',
      ''0x1000'', ''build/bootloader/bootloader.bin'',
      ''0x8000'', ''build/partition_table/partition-table.bin'',
      ''0x10000'', ''build/esp32-doom.bin'',
      ''0x188000'', ''build/wad_partition.bin'',
      ''0x388000'', ''build/storage.bin''] ]"
  using flash_command_layout [of good_world None usb0_state]
  by (simp add: good_world_def usb0_state_def resolved_port_def environ_get_def Let_def
        printable_def)

text \<open>
  C2. When the port \<^verbatim>\<open>flash_all\<close> reads (\<^verbatim>\<open>ESPPORT\<close> after the override) is empty or
  absent, \<^verbatim>\<open>flash_all\<close> returns \<^verbatim>\<open>False\<close> after printing the three lines of the
  missing-port error, no path is tested, no command is run, and the process ends with
  status 1. The last line of the run, which begins with U+2717, is there when standard
  output can encode it.
\<close>

theorem missing_port_fails:
  assumes "resolved_port port st = []"
  shows "flash_all w (entry_state port st) =
      (Inr False, entry_state port st\<lparr>events := events (entry_state port st) @
         [Print ''Error: ESPPORT environment variable not set!'',
          Print ''Please set ESPPORT to your device port (e.g., /dev/ttyUSB0)'',
          Print ''You can also set it via: export ESPPORT=/dev/ttyUSB0'']\<rparr>) \<and>
    main w (Namespace port) st =
      (1, st\<lparr>events := events st @
         [Print ''ESP32-Doom Flash Script'',
          Print ''======================='',
          Print ''Error: ESPPORT environment variable not set!'',
          Print ''Please set ESPPORT to your device port (e.g., /dev/ttyUSB0)'',
          Print ''You can also set it via: export ESPPORT=/dev/ttyUSB0'']
         @ (if printable w (newline @ ballot_x @ '' Flashing failed!'')
            then [Print (newline @ ballot_x @ '' Flashing failed!'')] else [])\<rparr>) \<and>
    checked_paths (events (snd (main w (Namespace port) st))) = checked_paths (events st) \<and>
    invocations (events (snd (main w (Namespace port) st))) = invocations (events st)"
proof -
  have port: "environ_get (entry_state port st) ''ESPPORT'' [] = []"
    using assms by simp
  have entry: "entry_state port st = st\<lparr>events := events st @
         [Print ''ESP32-Doom Flash Script'', Print ''=======================''] \<rparr>"
    using resolved_port_empty [OF assms]
    by (simp add: entry_state_def emit_def)
  note flash = flash_all_no_port [OF port, of w]
  have run: "main w (Namespace port) st =
      (1, st\<lparr>events := events st @
         [Print ''ESP32-Doom Flash Script'',
          Print ''======================='',
          Print ''Error: ESPPORT environment variable not set!'',
          Print ''Please set ESPPORT to your device port (e.g., /dev/ttyUSB0)'',
          Print ''You can also set it via: export ESPPORT=/dev/ttyUSB0'']
         @ (if printable w (newline @ ballot_x @ '' Flashing failed!'')
            then [Print (newline @ ballot_x @ '' Flashing failed!'')] else [])\<rparr>)"
    unfolding main_of_flash [OF flash]
    by (simp add: entry failure_report_def failure_line_def)
  show ?thesis
    unfolding run by (simp add: flash)
qed

theorem missing_port_fails_witness:
  "resolved_port None bare_state = [] \<and>
   main good_world (Namespace None) bare_state =
      (1, bare_state\<lparr>events :=
         [Print ''ESP32-Doom Flash Script'',
          Print ''======================='',
          Print ''Error: ESPPORT environment variable not set!'',
          Print ''Please set ESPPORT to your device port (e.g., /dev/ttyUSB0)'',
          Print ''You can also set it via: export ESPPORT=/dev/ttyUSB0'',
          Print (newline @ ballot_x @ '' Flashing failed!'')]\<rparr>) \<and>
   checked_paths (events (snd (main good_world (Namespace None) bare_state))) = [] \<and>
   invocations (events (snd (main good_world (Namespace None) bare_state))) = []"
proof -
  have unset: "resolved_port None bare_state = []"
    by (simp add: bare_state_def resolved_port_def environ_get_def)
  have "printable good_world (newline @ ballot_x @ '' Flashing failed!'')"
    by (simp add: printable_def good_world_def)
  with missing_port_fails [OF unset, of good_world] unset show ?thesis
    by (simp add: bare_state_def)
qed

lemma find_first_split:
  "find P xs = Some x \<Longrightarrow>
   \<exists>post. xs = takeWhile (\<lambda>y. \<not> P y) xs @ x # post \<and> P x"
  by (induction xs) (auto split: if_splits)

text \<open>
  C3. With a non-empty port, let \<open>(file_path, description)\<close> be the first entry of
  \<open>required_files\<close> (bootloader, partition table, application, SPIFFS storage, WAD, in
  that order) whose file is missing. Then the run tests the paths of the entries before
  it and its own, prints the error with the entry's label and path and the advice to run
  the build first, tests no later path, runs no command, and ends with status 1. The last
  line of the run, which begins with U+2717, is there when standard output can encode it.
\<close>

theorem missing_artifact_fails:
  assumes "resolved_port port st \<noteq> []"
    and "find (\<lambda>f. \<not> path_exists w (fst f)) required_files = Some (file_path, description)"
  shows "map fst required_files =
      [''build/bootloader/bootloader.bin'', ''build/partition_table/partition-table.bin'',
       ''build/esp32-doom.bin'', ''build/storage.bin'', ''build/wad_partition.bin''] \<and>
    map snd required_files =
      [''Bootloader'', ''Partition table'', ''Application'', ''SPIFFS storage'', ''WAD file''] \<and>
    \<not> path_exists w file_path \<and>
    fst (flash_all w (entry_state port st)) = Inr False \<and>
    fst (main w (Namespace port) st) = 1 \<and>
    events (snd (main w (Namespace port) st)) =
      events st @ preamble port
      @ map (\<lambda>f. Path_exists (fst f)) (takeWhile (\<lambda>f. path_exists w (fst f)) required_files)
      @ [Path_exists file_path,
         Print (''Error: '' @ description @ '' file not found: '' @ file_path),
         Print (''Please run '' @ apostrophe @ ''idf.py build'' @ apostrophe @ '' first'')]
      @ (if printable w (newline @ ballot_x @ '' Flashing failed!'')
         then [Print (newline @ ballot_x @ '' Flashing failed!'')] else []) \<and>
    checked_paths (events (snd (main w (Namespace port) st))) =
      checked_paths (events st)
      @ map fst (takeWhile (\<lambda>f. path_exists w (fst f)) required_files) @ [file_path] \<and>
    invocations (events (snd (main w (Namespace port) st))) = invocations (events st)"
proof -
  let ?pre = "takeWhile (\<lambda>f. path_exists w (fst f)) required_files"
  from find_first_split [OF assms(2)]
  obtain post where split: "required_files = ?pre @ (file_path, description) # post"
    and miss: "\<not> path_exists w file_path"
    by auto
  have pre: "\<forall>f\<in>set ?pre. path_exists w (fst f)"
    by (auto dest: set_takeWhileD)
  have port: "environ_get (entry_state port st) ''ESPPORT'' [] \<noteq> []"
    using assms(1) by simp
  note flash = flash_all_missing [OF port split pre miss]
  have ev: "events (snd (main w (Namespace port) st)) =
      events st @ preamble port @ map (\<lambda>f. Path_exists (fst f)) ?pre
      @ [Path_exists file_path,
         Print (''Error: '' @ description @ '' file not found: '' @ file_path),
         Print (''Please run '' @ apostrophe @ ''idf.py build'' @ apostrophe @ '' first'')]
      @ (if printable w (newline @ ballot_x @ '' Flashing failed!'')
         then [Print (newline @ ballot_x @ '' Flashing failed!'')] else [])"
    unfolding main_events flash by (simp add: failure_report_def failure_line_def)
  have names: "map fst required_files =
      [''build/bootloader/bootloader.bin'', ''build/partition_table/partition-table.bin'',
       ''build/esp32-doom.bin'', ''build/storage.bin'', ''build/wad_partition.bin'']"
    "map snd required_files =
      [''Bootloader'', ''Partition table'', ''Application'', ''SPIFFS storage'', ''WAD file'']"
    by (simp_all add: required_files_def bootloader_bin_def partition_table_bin_def app_bin_def
        storage_bin_def wad_bin_def)
  have status: "fst (main w (Namespace port) st) = 1"
    unfolding main_status flash by simp
  have res: "fst (flash_all w (entry_state port st)) = Inr False"
    unfolding flash by simp
  show ?thesis
    unfolding ev by (simp add: names miss status res)
qed

theorem missing_artifact_fails_witness:
  "resolved_port None usb0_state \<noteq> [] \<and>
   find (\<lambda>f. \<not> path_exists unbuilt_world (fst f)) required_files =
     Some (''build/storage.bin'', ''SPIFFS storage'') \<and>
   fst (main unbuilt_world (Namespace None) usb0_state) = 1 \<and>
   events (snd (main unbuilt_world (Namespace None) usb0_state)) =
     [Print ''ESP32-Doom Flash Script'',
      Print ''======================='',
      Path_exists ''build/bootloader/bootloader.bin'',
      Path_exists ''build/partition_table/partition-table.bin'',
      Path_exists ''build/esp32-doom.bin'',
      Path_exists ''build/storage.bin'',
      Print ''Error: SPIFFS storage file not found: build/storage.bin'',
      Print (''Please run '' @ apostrophe @ ''idf.py build'' @ apostrophe @ '' first''),
      Print (newline @ ballot_x @ '' Flashing failed!'')] \<and>
   invocations (events (snd (main unbuilt_world (Namespace None) usb0_state))) = []"
proof -
  have port: "resolved_port None usb0_state \<noteq> []"
    by (simp add: usb0_state_def resolved_port_def environ_get_def)
  have first: "find (\<lambda>f. \<not> path_exists unbuilt_world (fst f)) required_files =
     Some (''build/storage.bin'', ''SPIFFS storage'')"
    by (simp add: unbuilt_world_def good_world_def required_files_def bootloader_bin_def
          partition_table_bin_def app_bin_def storage_bin_def wad_bin_def)
  have pre: "takeWhile (\<lambda>f. path_exists unbuilt_world (fst f)) required_files =
      [(bootloader_bin, ''Bootloader''), (partition_table_bin, ''Partition table''),
       (app_bin, ''Application'')]"
    by (simp add: unbuilt_world_def good_world_def required_files_def bootloader_bin_def
          partition_table_bin_def app_bin_def storage_bin_def wad_bin_def)
  have line: "printable unbuilt_world (newline @ ballot_x @ '' Flashing failed!'')"
    by (simp add: printable_def unbuilt_world_def good_world_def)
  show ?thesis
    using missing_artifact_fails [OF port first] port first line
    by (simp add: pre preamble_def usb0_state_def bootloader_bin_def
          partition_table_bin_def app_bin_def)
qed









text \<open>
  C7. A run hands at most one command to the external tool, whatever the arguments, the
  environment, the files, the tool and standard output do. A run that fails for a missing
  port or a missing artifact runs no command; a run in which the tool exits with a status
  other than zero has run that one command and no other; each of the three ends with
  status 1.
\<close>

theorem at_most_one_invocation:
  "length (invocations (events (snd (main w args st)))) \<le> length (invocations (events st)) + 1 \<and>
   (resolved_port port st = [] \<longrightarrow>
      invocations (events (snd (main w (Namespace port) st))) = invocations (events st) \<and>
      fst (main w (Namespace port) st) = 1) \<and>
   (resolved_port port st \<noteq> [] \<and> (\<exists>f\<in>set required_files. \<not> path_exists w (fst f)) \<longrightarrow>
      invocations (events (snd (main w (Namespace port) st))) = invocations (events st) \<and>
      fst (main w (Namespace port) st) = 1) \<and>
   (resolved_port port st \<noteq> [] \<and> (\<forall>f\<in>set required_files. path_exists w (fst f)) \<and>
    c = cmd (resolved_port port st) (environ_get st ''ESPBAUD'' ''115200'')
          (environ_get st ''ESPFLASHMODE'' ''dio'') (environ_get st ''ESPFLASHFREQ'' ''40m'')
          (environ_get st ''ESPFLASHSIZE'' ''4MB'') \<and>
    subprocess w c = Exited returncode raw_out raw_err \<and> returncode \<noteq> 0 \<longrightarrow>
      invocations (events (snd (main w (Namespace port) st))) =
        invocations (events st) @ (if printable w (command_line c) then [c] else []) \<and>
      fst (main w (Namespace port) st) = 1)"
proof -
  have one: "length (invocations (events (snd (main w args st))))
      \<le> length (invocations (events st)) + 1"
    unfolding main_invocations by (simp split: parsed.splits)
  have no_port: "fst (main w (Namespace port) st) = 1" if "resolved_port port st = []"
    using that by (simp add: main_status flash_all_no_port)
  have no_file: "fst (main w (Namespace port) st) = 1"
    if port: "resolved_port port st \<noteq> []" and "\<exists>f\<in>set required_files. \<not> path_exists w (fst f)"
  proof -
    from that(2) obtain pre p d post where "required_files = pre @ (p, d) # post"
      "\<forall>f\<in>set pre. path_exists w (fst f)" "\<not> path_exists w p"
      using first_missing_split [of required_files w] by blast
    moreover have "environ_get (entry_state port st) ''ESPPORT'' [] \<noteq> []"
      using port by simp
    ultimately show ?thesis
      by (simp add: main_status flash_all_missing)
  qed
  have tool: "fst (main w (Namespace port) st) = 1"
    if "resolved_port port st \<noteq> []" and "\<forall>f\<in>set required_files. path_exists w (fst f)"
      and "subprocess w (cmd (resolved_port port st) (environ_get st ''ESPBAUD'' ''115200'')
          (environ_get st ''ESPFLASHMODE'' ''dio'') (environ_get st ''ESPFLASHFREQ'' ''40m'')
          (environ_get st ''ESPFLASHSIZE'' ''4MB'')) = Exited returncode raw_out raw_err"
      and "returncode \<noteq> 0"
    using run_command_not_True [OF description_ascii that(3,4)]
    unfolding main_status flash_all_entry_present [OF that(1,2)]
    by (simp split: sum.splits bool.splits)
  show ?thesis
    using one no_port no_file tool
    by (auto simp: main_invocations)
qed

theorem at_most_one_invocation_witness:
  "length (invocations (events (snd (main unplugged_world (Namespace None) usb0_state)))) \<le> 1 \<and>
   invocations (events (snd (main unplugged_world (Namespace None) usb0_state))) =
     [cmd ''/dev/ttyUSB0'' ''115200'' ''dio'' ''40m'' ''4MB''] \<and>
   fst (main unplugged_world (Namespace None) usb0_state) = 1 \<and>
   invocations (events (snd (main unplugged_world (Namespace None) bare_state))) = [] \<and>
   fst (main unplugged_world (Namespace None) bare_state) = 1 \<and>
   invocations (events (snd (main unbuilt_world (Namespace None) usb0_state))) = [] \<and>
   fst (main unbuilt_world (Namespace None) usb0_state) = 1"
proof -
  have port: "resolved_port None usb0_state = ''/dev/ttyUSB0''" "resolved_port None bare_state = []"
    by (simp_all add: usb0_state_def bare_state_def resolved_port_def environ_get_def)
  have env: "environ_get usb0_state ''ESPBAUD'' ''115200'' = ''115200''"
    "environ_get usb0_state ''ESPFLASHMODE'' ''dio'' = ''dio''"
    "environ_get usb0_state ''ESPFLASHFREQ'' ''40m'' = ''40m''"
    "environ_get usb0_state ''ESPFLASHSIZE'' ''4MB'' = ''4MB''"
    by (simp_all add: usb0_state_def environ_get_def)
  have files: "\<forall>f\<in>set required_files. path_exists unplugged_world (fst f)"
    by (simp add: unplugged_world_def good_world_def)
  have missing: "\<exists>f\<in>set required_files. \<not> path_exists unbuilt_world (fst f)"
    by (simp add: unbuilt_world_def good_world_def required_files_def storage_bin_def)
  have tool: "subprocess unplugged_world (cmd ''/dev/ttyUSB0'' ''115200'' ''dio'' ''40m'' ''4MB'')
      = Exited 2 ''Connecting...'' ''No serial data received.''"
    by (simp add: unplugged_world_def good_world_def)
  have all: "printable unplugged_world s" for s
    by (simp add: printable_def unplugged_world_def good_world_def)
  have "events usb0_state = []" "events bare_state = []"
    by (simp_all add: usb0_state_def bare_state_def)
  then show ?thesis
    using at_most_one_invocation [of unplugged_world "Namespace None" usb0_state None
        "cmd ''/dev/ttyUSB0'' ''115200'' ''dio'' ''40m'' ''4MB''" 2 "''Connecting...''"
        "''No serial data received.''"]
      at_most_one_invocation [of unplugged_world "Namespace None" bare_state None]
      at_most_one_invocation [of unbuilt_world "Namespace None" usb0_state None]
      port env files missing tool all
    by simp
qed

text \<open>
  C8. A run given \<^verbatim>\<open>--port\<close> with the empty string behaves exactly as a run given no
  \<^verbatim>\<open>--port\<close> at all: nothing is written to the environment, the port is the value of
  \<^verbatim>\<open>ESPPORT\<close> alone, and when that is empty or unset the run fails with the missing-port
  error and status 1. The last line of the run, which begins with U+2717, is there when
  standard output can encode it.
\<close>

theorem empty_port_flag_ignored:
  "main w (Namespace (Some [])) st = main w (Namespace None) st \<and>
   resolved_port (Some []) st = environ_get st ''ESPPORT'' [] \<and>
   environ (snd (main w (Namespace (Some [])) st)) = environ st \<and>
   environ_writes (events (snd (main w (Namespace (Some [])) st))) = environ_writes (events st) \<and>
   (environ_get st ''ESPPORT'' [] = [] \<longrightarrow>
      main w (Namespace (Some [])) st =
        (1, st\<lparr>events := events st @
           [Print ''ESP32-Doom Flash Script'',
            Print ''======================='',
            Print ''Error: ESPPORT environment variable not set!'',
            Print ''Please set ESPPORT to your device port (e.g., /dev/ttyUSB0)'',
            Print ''You can also set it via: export ESPPORT=/dev/ttyUSB0'']
           @ (if printable w (newline @ ballot_x @ '' Flashing failed!'')
              then [Print (newline @ ballot_x @ '' Flashing failed!'')] else [])\<rparr>))"
proof -
  have same: "main w (Namespace (Some [])) st = main w (Namespace None) st"
    by (simp add: main_def main_body_def)
  have port: "resolved_port (Some []) st = environ_get st ''ESPPORT'' []"
    by (simp add: resolved_port_def)
  have entry: "entry_state (Some []) st = st\<lparr>events := events st @
         [Print ''ESP32-Doom Flash Script'', Print ''=======================''] \<rparr>"
    by (simp add: entry_state_def emit_def)
  have fails: "main w (Namespace (Some [])) st =
        (1, st\<lparr>events := events st @
           [Print ''ESP32-Doom Flash Script'',
            Print ''======================='',
            Print ''Error: ESPPORT environment variable not set!'',
            Print ''Please set ESPPORT to your device port (e.g., /dev/ttyUSB0)'',
            Print ''You can also set it via: export ESPPORT=/dev/ttyUSB0'']
           @ (if printable w (newline @ ballot_x @ '' Flashing failed!'')
              then [Print (newline @ ballot_x @ '' Flashing failed!'')] else [])\<rparr>)"
    if "environ_get st ''ESPPORT'' [] = []"
  proof -
    have "environ_get (entry_state (Some []) st) ''ESPPORT'' [] = []"
      using that port by simp
    note flash = flash_all_no_port [OF this, of w]
    show ?thesis
      unfolding main_of_flash [OF flash]
      by (simp add: entry failure_report_def failure_line_def)
  qed
  show ?thesis
    using same port fails by (simp add: main_environ_eq main_environ_writes)
qed

theorem empty_port_flag_ignored_witness:
  "environ_get bare_state ''ESPPORT'' [] = [] \<and>
   main good_world (Namespace (Some [])) bare_state =
     (1, bare_state\<lparr>events :=
           [Print ''ESP32-Doom Flash Script'',
            Print ''======================='',
            Print ''Error: ESPPORT environment variable not set!'',
            Print ''Please set ESPPORT to your device port (e.g., /dev/ttyUSB0)'',
            Print ''You can also set it via: export ESPPORT=/dev/ttyUSB0'',
            Print (newline @ ballot_x @ '' Flashing failed!'')]\<rparr>) \<and>
   environ (snd (main good_world (Namespace (Some [])) bare_state)) = Map.empty"
proof -
  have unset: "environ_get bare_state ''ESPPORT'' [] = []"
    by (simp add: bare_state_def environ_get_def)
  have line: "printable good_world (newline @ ballot_x @ '' Flashing failed!'')"
    by (simp add: printable_def good_world_def)
  from empty_port_flag_ignored [of good_world bare_state] unset
  have "main good_world (Namespace (Some [])) bare_state =
     (1, bare_state\<lparr>events := events bare_state @
           [Print ''ESP32-Doom Flash Script'',
            Print ''======================='',
            Print ''Error: ESPPORT environment variable not set!'',
            Print ''Please set ESPPORT to your device port (e.g., /dev/ttyUSB0)'',
            Print ''You can also set it via: export ESPPORT=/dev/ttyUSB0'']
           @ (if printable good_world (newline @ ballot_x @ '' Flashing failed!'')
              then [Print (newline @ ballot_x @ '' Flashing failed!'')] else [])\<rparr>)"
    by blast
  with unset line show ?thesis
    by (simp add: bare_state_def)
qed

text \<open>
  C9. Whatever the run does, every environment variable other than \<^verbatim>\<open>ESPPORT\<close> has
  the value it had before, and the run assigns to the environment at most once: it
  assigns the argument of \<^verbatim>\<open>--port\<close> to \<^verbatim>\<open>ESPPORT\<close> when that argument is given and is
  not empty, and assigns nothing otherwise.
\<close>

theorem only_espport_written:
  "(k \<noteq> ''ESPPORT'' \<longrightarrow> environ (snd (main w args st)) k = environ st k) \<and>
   environ_writes (events (snd (main w args st))) =
     environ_writes (events st) @
     (case args of
        Namespace (Some v) \<Rightarrow> if v \<noteq> [] then [(''ESPPORT'', v)] else []
      | _ \<Rightarrow> []) \<and>
   length (environ_writes (events (snd (main w args st))))
     \<le> length (environ_writes (events st)) + 1"
  unfolding main_environ_writes
  by (simp add: main_environ_eq split: parsed.splits option.splits)

theorem only_espport_written_witness:
  "environ (snd (main good_world (Namespace (Some ''/dev/ttyUSB1'')) usb0_state)) ''ESPBAUD''
     = environ usb0_state ''ESPBAUD'' \<and>
   environ_writes (events (snd (main good_world (Namespace (Some ''/dev/ttyUSB1'')) usb0_state)))
     = [(''ESPPORT'', ''/dev/ttyUSB1'')] \<and>
   environ_writes (events (snd (main good_world (Namespace None) usb0_state))) = []"
  using only_espport_written [of "''ESPBAUD''" good_world "Namespace (Some ''/dev/ttyUSB1'')" usb0_state]
    only_espport_written [of "''ESPBAUD''" good_world "Namespace None" usb0_state]
  by (simp add: usb0_state_def)

text \<open>
  C4, as the code has it. A \<^verbatim>\<open>--port\<close> argument that is not the empty string replaces
  whatever \<^verbatim>\<open>ESPPORT\<close> held: the first thing the run does is to assign it to \<^verbatim>\<open>ESPPORT\<close>,
  nothing else is assigned afterwards, \<^verbatim>\<open>flash_all\<close> reads it as the port, and the command
  built when the five files exist, which is run as soon as the line showing it has been
  printed, carries it after \<^verbatim>\<open>--port\<close>.
\<close>

theorem port_flag_overrides:
  assumes "v \<noteq> []"
  shows "resolved_port (Some v) st = v \<and>
    environ_get (entry_state (Some v) st) ''ESPPORT'' [] = v \<and>
    environ (snd (main w (Namespace (Some v)) st)) = (environ st)(''ESPPORT'' \<mapsto> v) \<and>
    (\<exists>rest. events (snd (main w (Namespace (Some v)) st)) =
        events st @ Environ_set ''ESPPORT'' v # rest \<and> environ_writes rest = []) \<and>
    (let c = [''esptool.py'', ''--chip'', ''esp32'',
              ''--port'', v,
              ''--baud'', environ_get st ''ESPBAUD'' ''115200'',
              ''write_flash'',
              ''--flash_mode'', environ_get st ''ESPFLASHMODE'' ''dio'',
              ''--flash_freq'', environ_get st ''ESPFLASHFREQ'' ''40m'',
              ''--flash_size'', environ_get st ''ESPFLASHSIZE'' ''4MB'',
              ''0x1000'', ''build/bootloader/bootloader.bin'',
              ''0x8000'', ''build/partition_table/partition-table.bin'',
              ''0x10000'', ''build/esp32-doom.bin'',
              ''0x188000'', ''build/wad_partition.bin'',
              ''0x388000'', ''build/storage.bin'']
     in ((\<forall>f\<in>set required_files. path_exists w (fst f)) \<longrightarrow>
           flash_all w (entry_state (Some v) st) =
             run_command w c ''Flashing all partitions''
               (entry_state (Some v) st\<lparr>events := events st @ preamble (Some v)
                  @ map (\<lambda>f. Path_exists (fst f)) required_files\<rparr>)) \<and>
        invocations (events (snd (main w (Namespace (Some v)) st))) =
          invocations (events st) @
          (if (\<forall>f\<in>set required_files. path_exists w (fst f)) \<and> printable w (command_line c)
           then [c] else []))"
proof -
  have port: "resolved_port (Some v) st = v"
    using assms by (simp add: resolved_port_eq)
  obtain es where es: "events (snd (flash_all w (entry_state (Some v) st))) =
      events (entry_state (Some v) st) @ es" "environ_writes es = []"
    using flash_all_extends by blast
  let ?tail = "case fst (flash_all w (entry_state (Some v) st)) of
       Inl e \<Rightarrow> [] | Inr True \<Rightarrow> success_report w | Inr False \<Rightarrow> failure_report w"
  have tail: "environ_writes ?tail = []"
    by (simp split: sum.splits bool.splits)
  have "events (snd (main w (Namespace (Some v)) st)) =
      events st @ Environ_set ''ESPPORT'' v #
        ([Print ''ESP32-Doom Flash Script'', Print ''=======================''] @ es @ ?tail)"
    unfolding main_events es using assms by (simp add: preamble_def)
  moreover have "environ_writes
      ([Print ''ESP32-Doom Flash Script'', Print ''=======================''] @ es @ ?tail) = []"
    using es(2) tail by simp
  ultimately have first: "\<exists>rest. events (snd (main w (Namespace (Some v)) st)) =
        events st @ Environ_set ''ESPPORT'' v # rest \<and> environ_writes rest = []"
    by blast
  have env: "environ (snd (main w (Namespace (Some v)) st)) = (environ st)(''ESPPORT'' \<mapsto> v)"
    using assms by (simp add: main_environ_eq)
  let ?c = "cmd v (environ_get st ''ESPBAUD'' ''115200'')
                 (environ_get st ''ESPFLASHMODE'' ''dio'') (environ_get st ''ESPFLASHFREQ'' ''40m'')
                 (environ_get st ''ESPFLASHSIZE'' ''4MB'')"
  have inv: "invocations (events (snd (main w (Namespace (Some v)) st))) =
      invocations (events st) @
      (if (\<forall>f\<in>set required_files. path_exists w (fst f)) \<and> printable w (command_line ?c)
       then [?c] else [])"
    unfolding main_invocations using assms by (simp add: port)
  have built: "flash_all w (entry_state (Some v) st) =
             run_command w ?c ''Flashing all partitions''
               (entry_state (Some v) st\<lparr>events := events st @ preamble (Some v)
                  @ map (\<lambda>f. Path_exists (fst f)) required_files\<rparr>)"
    if "\<forall>f\<in>set required_files. path_exists w (fst f)"
    using flash_all_entry_present [of "Some v" st w] that assms by (simp add: port)
  show ?thesis
    unfolding Let_def cmd_literal [symmetric]
    using port first env inv built by simp
qed

theorem port_flag_overrides_witness:
  "environ usb0_state ''ESPPORT'' = Some ''/dev/ttyUSB0'' \<and>
   environ (snd (main good_world (Namespace (Some ''/dev/ttyUSB1'')) usb0_state)) ''ESPPORT''
     = Some ''/dev/ttyUSB1'' \<and>
   invocations (events (snd (main good_world (Namespace (Some ''/dev/ttyUSB1'')) usb0_state))) =
     [ [''esptool.py'', ''--chip'', ''esp32'', ''--port'', ''/dev/ttyUSB1'', ''--baud'', ''115200'',
       ''write_flash'', ''--flash_mode'', ''dio'', ''--flash_freq'', ''40m'', ''--flash_size'', ''4MB'',
       ''0x1000'', ''build/bootloader/bootloader.bin'',
       ''0x8000'', ''build/partition_table/partition-table.bin'',
       ''0x10000'', ''build/esp32-doom.bin'',
       ''0x188000'', ''build/wad_partition.bin'',
       ''0x388000'', ''build/storage.bin''] ]"
proof -
  have files: "\<forall>f\<in>set required_files. path_exists good_world (fst f)"
    by (simp add: good_world_def)
  have all: "printable good_world s" for s
    by (simp add: printable_def good_world_def)
  from port_flag_overrides [of "''/dev/ttyUSB1''" usb0_state good_world] files all
  show ?thesis
    by (simp add: usb0_state_def environ_get_def Let_def)
qed

text \<open>
  C4 as stated fails for the empty string: \<^verbatim>\<open>--port ""\<close> with \<^verbatim>\<open>ESPPORT=/dev/ttyUSB0\<close>
  writes nothing to the environment, and the command carries \<^verbatim>\<open>/dev/ttyUSB0\<close>, not the
  value given on the command line.
\<close>

theorem port_flag_empty_counterexample:
  "environ_writes (events (snd (main good_world (Namespace (Some [])) usb0_state))) = [] \<and>
   environ (snd (main good_world (Namespace (Some [])) usb0_state)) ''ESPPORT''
     = Some ''/dev/ttyUSB0'' \<and>
   invocations (events (snd (main good_world (Namespace (Some [])) usb0_state))) =
     [ [''esptool.py'', ''--chip'', ''esp32'', ''--port'', ''/dev/ttyUSB0'', ''--baud'', ''115200'',
       ''write_flash'', ''--flash_mode'', ''dio'', ''--flash_freq'', ''40m'', ''--flash_size'', ''4MB'',
       ''0x1000'', ''build/bootloader/bootloader.bin'',
       ''0x8000'', ''build/partition_table/partition-table.bin'',
       ''0x10000'', ''build/esp32-doom.bin'',
       ''0x188000'', ''build/wad_partition.bin'',
       ''0x388000'', ''build/storage.bin''] ]"
proof -
  have files: "\<forall>f\<in>set required_files. path_exists good_world (fst f)"
    by (simp add: good_world_def)
  have all: "printable good_world s" for s
    by (simp add: printable_def good_world_def)
  from files all show ?thesis
    by (simp add: main_environ_writes main_environ_eq main_invocations resolved_port_eq
          usb0_state_def environ_get_def cmd_literal)
qed


text \<open>
  Two calls of \<^verbatim>\<open>flash_all\<close> whose environments agree on the five variables it reads,
  whose file systems agree on the five required files, and whose standard outputs encode
  the same texts.
\<close>

lemma flash_all_cong:
  assumes env: "environ s ''ESPPORT'' = environ s' ''ESPPORT''"
      "environ s ''ESPBAUD'' = environ s' ''ESPBAUD''"
      "environ s ''ESPFLASHMODE'' = environ s' ''ESPFLASHMODE''"
      "environ s ''ESPFLASHFREQ'' = environ s' ''ESPFLASHFREQ''"
      "environ s ''ESPFLASHSIZE'' = environ s' ''ESPFLASHSIZE''"
    and files: "\<forall>f\<in>set required_files. path_exists w (fst f) = path_exists w' (fst f)"
    and out: "stdout_encodes w = stdout_encodes w'"
    and ev: "events s = events s'"
  shows "invocations (events (snd (flash_all w s))) = invocations (events (snd (flash_all w' s')))"
    and "checked_paths (events (snd (flash_all w s))) = checked_paths (events (snd (flash_all w' s')))"
    and "invocations (events (snd (flash_all w s))) = invocations (events s) \<Longrightarrow>
         fst (flash_all w s) = fst (flash_all w' s') \<and>
         events (snd (flash_all w s)) = events (snd (flash_all w' s'))"
    and "subprocess w = subprocess w' \<Longrightarrow> decode w = decode w' \<Longrightarrow> exc_str w = exc_str w' \<Longrightarrow>
         fst (flash_all w s) = fst (flash_all w' s') \<and>
         events (snd (flash_all w s)) = events (snd (flash_all w' s'))"
proof -
  have get: "environ_get s ''ESPPORT'' d = environ_get s' ''ESPPORT'' d"
    "environ_get s ''ESPBAUD'' d = environ_get s' ''ESPBAUD'' d"
    "environ_get s ''ESPFLASHMODE'' d = environ_get s' ''ESPFLASHMODE'' d"
    "environ_get s ''ESPFLASHFREQ'' d = environ_get s' ''ESPFLASHFREQ'' d"
    "environ_get s ''ESPFLASHSIZE'' d = environ_get s' ''ESPFLASHSIZE'' d" for d
    using env by (simp_all add: environ_get_def)
  have pr: "printable w t = printable w' t" for t
    using out by (simp add: printable_def)
  let ?c = "cmd (environ_get s ''ESPPORT'' []) (environ_get s ''ESPBAUD'' ''115200'')
              (environ_get s ''ESPFLASHMODE'' ''dio'') (environ_get s ''ESPFLASHFREQ'' ''40m'')
              (environ_get s ''ESPFLASHSIZE'' ''4MB'')"
  let ?paths = "map (\<lambda>f. Path_exists (fst f)) required_files"
  consider (no_port) "environ_get s ''ESPPORT'' [] = []"
    | (missing) "environ_get s ''ESPPORT'' [] \<noteq> []" "\<exists>f\<in>set required_files. \<not> path_exists w (fst f)"
    | (present) "environ_get s ''ESPPORT'' [] \<noteq> []" "\<forall>f\<in>set required_files. path_exists w (fst f)"
    by blast
  then have "invocations (events (snd (flash_all w s))) = invocations (events (snd (flash_all w' s'))) \<and>
    checked_paths (events (snd (flash_all w s))) = checked_paths (events (snd (flash_all w' s'))) \<and>
    (invocations (events (snd (flash_all w s))) = invocations (events s) \<longrightarrow>
         fst (flash_all w s) = fst (flash_all w' s') \<and>
         events (snd (flash_all w s)) = events (snd (flash_all w' s'))) \<and>
    (subprocess w = subprocess w' \<and> decode w = decode w' \<and> exc_str w = exc_str w' \<longrightarrow>
         fst (flash_all w s) = fst (flash_all w' s') \<and>
         events (snd (flash_all w s)) = events (snd (flash_all w' s')))"
  proof cases
    case no_port
    then have "environ_get s' ''ESPPORT'' [] = []"
      by (simp add: get)
    with no_port show ?thesis
      by (simp add: flash_all_no_port ev)
  next
    case missing
    then obtain pre p d post where split: "required_files = pre @ (p, d) # post"
      and pre: "\<forall>f\<in>set pre. path_exists w (fst f)" and miss: "\<not> path_exists w p"
      using first_missing_split [of required_files w] by blast
    have pre': "\<forall>f\<in>set pre. path_exists w' (fst f)"
      using pre files unfolding split by simp
    have miss': "\<not> path_exists w' p"
      using miss files unfolding split by simp
    have port': "environ_get s' ''ESPPORT'' [] \<noteq> []"
      using missing(1) by (simp add: get)
    show ?thesis
      unfolding flash_all_missing [OF missing(1) split pre miss]
        flash_all_missing [OF port' split pre' miss']
      by (simp add: ev)
  next
    case present
    have files': "\<forall>f\<in>set required_files. path_exists w' (fst f)"
      using present(2) files by simp
    have port': "environ_get s' ''ESPPORT'' [] \<noteq> []"
      using present(1) by (simp add: get)
    have f: "flash_all w s = run_command w ?c ''Flashing all partitions''
        (s\<lparr>events := events s @ ?paths\<rparr>)"
      by (rule flash_all_present [OF present])
    have f': "flash_all w' s' = run_command w' ?c ''Flashing all partitions''
        (s'\<lparr>events := events s' @ ?paths\<rparr>)"
      using flash_all_present [OF port' files'] by (simp add: get)
    have same: "fst (flash_all w s) = fst (flash_all w' s') \<and>
         events (snd (flash_all w s)) = events (snd (flash_all w' s'))"
      if "subprocess w = subprocess w'" "decode w = decode w'" "exc_str w = exc_str w'"
      unfolding f f' using that out
      by (intro run_command_cong) (simp_all add: ev)
    have quiet: "fst (flash_all w s) = fst (flash_all w' s') \<and>
         events (snd (flash_all w s)) = events (snd (flash_all w' s'))"
      if "\<not> printable w (command_line ?c)"
      unfolding f f' using that pr [of "command_line ?c"]
      by (simp add: run_command_start ev)
    have inv: "invocations (events (snd (flash_all w s))) =
        invocations (events s) @ (if printable w (command_line ?c) then [?c] else [])"
      "invocations (events (snd (flash_all w' s'))) =
        invocations (events s) @ (if printable w (command_line ?c) then [?c] else [])"
      unfolding f f' by (simp_all add: run_command_invocations ev pr)
    have cp: "checked_paths (events (snd (flash_all w s))) =
        checked_paths (events (snd (flash_all w' s')))"
      unfolding f f' by (simp add: run_command_frame ev)
    show ?thesis
      using same quiet cp unfolding inv
      by (cases "printable w (command_line ?c)") simp_all
  qed
  then show "invocations (events (snd (flash_all w s))) = invocations (events (snd (flash_all w' s')))"
    and "checked_paths (events (snd (flash_all w s))) = checked_paths (events (snd (flash_all w' s')))"
    and "invocations (events (snd (flash_all w s))) = invocations (events s) \<Longrightarrow>
         fst (flash_all w s) = fst (flash_all w' s') \<and>
         events (snd (flash_all w s)) = events (snd (flash_all w' s'))"
    and "subprocess w = subprocess w' \<Longrightarrow> decode w = decode w' \<Longrightarrow> exc_str w = exc_str w' \<Longrightarrow>
         fst (flash_all w s) = fst (flash_all w' s') \<and>
         events (snd (flash_all w s)) = events (snd (flash_all w' s'))"
    by blast+
qed

lemma entry_state_agree:
  "environ st k = environ st' k \<Longrightarrow> environ (entry_state port st) k = environ (entry_state port st') k"
  by (simp add: environ_entry_state)

text \<open>
  C10, as the code has it. Two runs with the same arguments, whose environments agree on
  \<^verbatim>\<open>ESPPORT\<close>, \<^verbatim>\<open>ESPBAUD\<close>, \<^verbatim>\<open>ESPFLASHMODE\<close>, \<^verbatim>\<open>ESPFLASHFREQ\<close> and \<^verbatim>\<open>ESPFLASHSIZE\<close>,
  whose file systems agree on the five required files and whose standard outputs have the
  same encoding, test the same paths and hand the same commands to the external tool;
  when no command is run they print the same lines and end with the same status; and
  when the external tool behaves the same in both, they print the same lines and end with
  the same status.
\<close>

theorem command_deterministic:
  assumes "environ st ''ESPPORT'' = environ st' ''ESPPORT''"
    and "environ st ''ESPBAUD'' = environ st' ''ESPBAUD''"
    and "environ st ''ESPFLASHMODE'' = environ st' ''ESPFLASHMODE''"
    and "environ st ''ESPFLASHFREQ'' = environ st' ''ESPFLASHFREQ''"
    and "environ st ''ESPFLASHSIZE'' = environ st' ''ESPFLASHSIZE''"
    and "\<forall>f\<in>set required_files. path_exists w (fst f) = path_exists w' (fst f)"
    and "stdout_encodes w = stdout_encodes w'"
    and "events st = events st'"
  shows "invocations (events (snd (main w args st))) = invocations (events (snd (main w' args st'))) \<and>
    checked_paths (events (snd (main w args st))) = checked_paths (events (snd (main w' args st'))) \<and>
    (invocations (events (snd (main w args st))) = invocations (events st) \<longrightarrow>
       fst (main w args st) = fst (main w' args st') \<and>
       events (snd (main w args st)) = events (snd (main w' args st'))) \<and>
    (subprocess w = subprocess w' \<and> decode w = decode w' \<and> exc_str w = exc_str w' \<longrightarrow>
       fst (main w args st) = fst (main w' args st') \<and>
       events (snd (main w args st)) = events (snd (main w' args st')))"
proof (cases args)
  case (Parser_exit status)
  then show ?thesis
    using assms(8) by (simp add: main_def)
next
  case (Namespace port)
  let ?s = "entry_state port st" and ?s' = "entry_state port st'"
  have ev: "events ?s = events ?s'"
    using assms(8) by simp
  have pr: "printable w = printable w'"
    using assms(7) by (simp add: printable_def fun_eq_iff)
  note cong = flash_all_cong [of ?s ?s' w w', OF entry_state_agree [OF assms(1)]
      entry_state_agree [OF assms(2)] entry_state_agree [OF assms(3)]
      entry_state_agree [OF assms(4)] entry_state_agree [OF assms(5)] assms(6) assms(7) ev]
  have inv: "invocations (events (snd (main w (Namespace port) st))) =
      invocations (events (snd (flash_all w ?s)))"
    "invocations (events (snd (main w' (Namespace port) st'))) =
      invocations (events (snd (flash_all w' ?s')))"
    by (simp_all add: main_events split: sum.splits bool.splits)
  have cp: "checked_paths (events (snd (main w (Namespace port) st))) =
      checked_paths (events (snd (flash_all w ?s)))"
    "checked_paths (events (snd (main w' (Namespace port) st'))) =
      checked_paths (events (snd (flash_all w' ?s')))"
    by (simp_all add: main_events split: sum.splits bool.splits)
  have lift: "fst (main w (Namespace port) st) = fst (main w' (Namespace port) st') \<and>
       events (snd (main w (Namespace port) st)) = events (snd (main w' (Namespace port) st'))"
    if "fst (flash_all w ?s) = fst (flash_all w' ?s') \<and>
        events (snd (flash_all w ?s)) = events (snd (flash_all w' ?s'))"
  proof -
    have rep: "success_report w = success_report w'" "failure_report w = failure_report w'"
      by (simp_all add: success_report_def failure_report_def pr)
    show ?thesis
      unfolding main_status main_events rep pr using that by simp
  qed
  have quiet: "invocations (events (snd (flash_all w ?s))) = invocations (events ?s)"
    if "invocations (events (snd (main w (Namespace port) st))) = invocations (events st)"
    using that unfolding inv by simp
  have c1: "invocations (events (snd (main w (Namespace port) st))) =
      invocations (events (snd (main w' (Namespace port) st')))"
    unfolding inv by (rule cong(1))
  have c2: "checked_paths (events (snd (main w (Namespace port) st))) =
      checked_paths (events (snd (main w' (Namespace port) st')))"
    unfolding cp by (rule cong(2))
  have c3: "fst (main w (Namespace port) st) = fst (main w' (Namespace port) st') \<and>
       events (snd (main w (Namespace port) st)) = events (snd (main w' (Namespace port) st'))"
    if "invocations (events (snd (main w (Namespace port) st))) = invocations (events st)"
  proof -
    note q = quiet [OF that]
    note same = cong(3) [OF q]
    show ?thesis by (rule lift [OF same])
  qed
  have c4: "fst (main w (Namespace port) st) = fst (main w' (Namespace port) st') \<and>
       events (snd (main w (Namespace port) st)) = events (snd (main w' (Namespace port) st'))"
    if "subprocess w = subprocess w' \<and> decode w = decode w' \<and> exc_str w = exc_str w'"
    using that by (intro lift cong(4)) simp_all
  show ?thesis
    unfolding Namespace using c1 c2 c3 c4 by blast
qed

theorem command_deterministic_witness:
  "path_exists good_world ''build/storage.bin'' = path_exists unplugged_world ''build/storage.bin'' \<and>
   invocations (events (snd (main good_world (Namespace None) usb0_state))) =
     invocations (events (snd (main unplugged_world (Namespace None) usb0_state))) \<and>
   checked_paths (events (snd (main good_world (Namespace None) usb0_state))) =
     checked_paths (events (snd (main unplugged_world (Namespace None) usb0_state))) \<and>
   fst (main good_world (Namespace None) bare_state) = fst (main unplugged_world (Namespace None) bare_state) \<and>
   events (snd (main good_world (Namespace None) bare_state)) =
     events (snd (main unplugged_world (Namespace None) bare_state))"
proof -
  have files: "\<forall>f\<in>set required_files.
      path_exists good_world (fst f) = path_exists unplugged_world (fst f)"
    by (simp add: unplugged_world_def)
  have out: "stdout_encodes good_world = stdout_encodes unplugged_world"
    by (simp add: unplugged_world_def)
  have quiet: "invocations (events (snd (main good_world (Namespace None) bare_state))) =
      invocations (events bare_state)"
    by (simp add: main_invocations resolved_port_eq bare_state_def environ_get_def)
  note plugged = command_deterministic [of usb0_state usb0_state good_world unplugged_world
      "Namespace None", OF refl refl refl refl refl files out refl]
  note bare = command_deterministic [of bare_state bare_state good_world unplugged_world
      "Namespace None", OF refl refl refl refl refl files out refl]
  have "path_exists good_world ''build/storage.bin''
      = path_exists unplugged_world ''build/storage.bin''"
    by (simp add: unplugged_world_def)
  with plugged bare quiet show ?thesis
    by blast
qed

text \<open>
  C10 as stated fails: with the same environment, the same arguments, the same files and
  the same standard output, a run in which the tool succeeds ends with status 0 and a run
  in which it fails ends with status 1, though both hand the same command to the tool.
\<close>

theorem outcome_depends_on_tool_counterexample:
  "path_exists good_world = path_exists unplugged_world \<and>
   stdout_encodes good_world = stdout_encodes unplugged_world \<and>
   invocations (events (snd (main good_world (Namespace None) usb0_state))) =
     invocations (events (snd (main unplugged_world (Namespace None) usb0_state))) \<and>
   fst (main good_world (Namespace None) usb0_state) = 0 \<and>
   fst (main unplugged_world (Namespace None) usb0_state) = 1"
proof -
  have "resolved_port None usb0_state \<noteq> []"
    by (simp add: resolved_port_eq usb0_state_def environ_get_def)
  then have port: "environ_get (entry_state None usb0_state) ''ESPPORT'' [] \<noteq> []"
    by simp
  have files: "\<forall>f\<in>set required_files. path_exists good_world (fst f)"
    "\<forall>f\<in>set required_files. path_exists unplugged_world (fst f)"
    by (simp_all add: unplugged_world_def good_world_def)
  have all: "printable good_world s" "printable unplugged_world s" for s
    by (simp_all add: printable_def unplugged_world_def good_world_def)
  have tool: "subprocess good_world c = Exited 0 ''Hash of data verified.'' []"
    "subprocess unplugged_world c = Exited 2 ''Connecting...'' ''No serial data received.''" for c
    by (simp_all add: unplugged_world_def good_world_def)
  have dec: "decode good_world ''Hash of data verified.'' = Some ''Hash of data verified.''"
    "decode good_world [] = Some []"
    by (simp_all add: good_world_def)
  have ok: "fst (main good_world (Namespace None) usb0_state) = 0"
    unfolding main_status flash_all_present [OF port files(1)]
      run_command_ok [OF description_ascii all(1) tool(1) dec all(1)]
    by (simp add: all)
  have bad: "fst (main unplugged_world (Namespace None) usb0_state) = 1"
    using run_command_not_True [OF description_ascii tool(2)]
    unfolding main_status flash_all_present [OF port files(2)]
    by (simp split: sum.splits bool.splits)
  show ?thesis
    using ok bad files all
    by (simp add: main_invocations) (simp add: unplugged_world_def)
qed

end
